theory Spec2Isabelle
  imports Complex_Main
begin

section \<open>Values handed over by JSON.parse\<close>

text \<open>
  Both services receive the text of a language model, strip the code fences and call
  \<^verbatim>\<open>JSON.parse\<close>. What is modelled here starts at the parsed object, which has the
  shape of its TypeScript interface. A leaf of that object is a \<open>jsval\<close>: \<open>Undefined\<close> is
  what reading an absent property gives, the other constructors are the JSON
  primitives, so a leaf can be missing or of the wrong type; an array or an object in
  the place of a leaf is not modelled. A TypeScript \<^verbatim>\<open>number\<close> that is finite is held
  as the \<open>real\<close> it denotes, so comparisons are those of the reals; additions and
  subtractions round as the doubles do (next section). The infinities that
  \<^verbatim>\<open>JSON.parse\<close> can produce behave like numbers outside every range. A string is the
  list of its code units.
\<close>

datatype jsval = Undefined | Null | Bool bool | Num real | Str string

text \<open>\<^verbatim>\<open>typeof v === 'number'\<close>\<close>

fun isNumber :: "jsval \<Rightarrow> bool" where
  "isNumber (Num x) = True"
| "isNumber v = False"

text \<open>The number held by a value; only read after \<open>isNumber\<close> has been checked.\<close>

fun num_of :: "jsval \<Rightarrow> real" where
  "num_of (Num x) = x"
| "num_of v = 0"

text \<open>\<^verbatim>\<open>!v\<close>: the falsy primitives.\<close>

fun falsy :: "jsval \<Rightarrow> bool" where
  "falsy Undefined = True"
| "falsy Null = True"
| "falsy (Bool b) = (\<not> b)"
| "falsy (Num x) = (x = 0)"
| "falsy (Str s) = (s = [])"

text \<open>
  \<^verbatim>\<open>v.length < n\<close> for a truthy primitive \<open>v\<close>: a string has a length; on a number or a
  boolean \<^verbatim>\<open>.length\<close> is undefined and \<^verbatim>\<open>undefined < n\<close> is false.
\<close>

fun length_less :: "jsval \<Rightarrow> nat \<Rightarrow> bool" where
  "length_less (Str s) n = (length s < n)"
| "length_less v n = False"

section \<open>Arithmetic of doubles\<close>

text \<open>
  A finite double is a real \<open>m * 2 ^ (e - 52)\<close> with \<open>\<bar>m\<bar> < 2 ^ 53\<close> and
  \<open>- 1022 \<le> e \<le> 1023\<close>. The sum and the difference of two doubles are the exact
  results rounded to the nearest double, a tie going to the even \<open>m\<close>.
\<close>

text \<open>Nearest integer, ties to even.\<close>

definition round_even :: "real \<Rightarrow> int" where
  "round_even q =
    (let f = \<lfloor>q\<rfloor>; d = q - of_int f
     in if d < 1 / 2 then f else if 1 / 2 < d then f + 1 else if even f then f else f + 1)"

text \<open>
  The exponent \<open>e\<close> of the binade of \<open>x\<close>, that is \<open>2 ^ e \<le> \<bar>x\<bar> < 2 ^ (e + 1)\<close>, not
  below the exponent of the subnormal numbers.
\<close>

definition binade :: "real \<Rightarrow> int" where
  "binade x = max \<lfloor>log 2 \<bar>x\<bar>\<rfloor> (- 1022)"

text \<open>Rounding to 53 significant bits, the exponent not bounded above.\<close>

definition to_double :: "real \<Rightarrow> real" where
  "to_double x =
    (if x = 0 then 0
     else of_int (round_even (x / 2 powr of_int (binade x - 52))) * 2 powr of_int (binade x - 52))"

text \<open>
  \<^verbatim>\<open>x + y\<close> and \<^verbatim>\<open>x - y\<close> on finite doubles whose result is finite. The validators
  add and subtract only numbers that have passed their range checks, at most 30 and 100
  in size, where no result can reach \<open>2 ^ 1024\<close>.
\<close>

definition fadd :: "real \<Rightarrow> real \<Rightarrow> real" where
  "fadd x y = to_double (x + y)"

definition fsub :: "real \<Rightarrow> real \<Rightarrow> real" where
  "fsub x y = to_double (x - y)"

text \<open>
  The roller adds weights that nothing has checked, so its running sum is a double with
  the infinities and the not-a-number: a rounded sum of size \<open>2 ^ 1024\<close> or more
  overflows.
\<close>

datatype double = Finite real | PosInf | NegInf | NaN

definition of_rounded :: "real \<Rightarrow> double" where
  "of_rounded r =
    (if 2 ^ 1024 \<le> r then PosInf else if r \<le> - (2 ^ 1024) then NegInf else Finite r)"

fun js_add :: "double \<Rightarrow> double \<Rightarrow> double" where
  "js_add (Finite x) (Finite y) = of_rounded (fadd x y)"
| "js_add NaN b = NaN"
| "js_add a NaN = NaN"
| "js_add PosInf NegInf = NaN"
| "js_add NegInf PosInf = NaN"
| "js_add PosInf b = PosInf"
| "js_add a PosInf = PosInf"
| "js_add NegInf b = NegInf"
| "js_add a NegInf = NegInf"

text \<open>\<^verbatim>\<open>a < b\<close>; every comparison with the not-a-number is false.\<close>

fun js_less :: "double \<Rightarrow> double \<Rightarrow> bool" where
  "js_less (Finite x) (Finite y) = (x < y)"
| "js_less NaN b = False"
| "js_less a NaN = False"
| "js_less a NegInf = False"
| "js_less PosInf b = False"
| "js_less NegInf b = True"
| "js_less a PosInf = True"

section \<open>Errors\<close>

text \<open>
  Every \<^verbatim>\<open>throw new Error(msg)\<close> of the two services is one constructor; the message
  is given beside it. \<open>TypeError\<close> is the runtime's error for reading a property of
  \<^verbatim>\<open>undefined\<close>. The two wrappers are the \<^verbatim>\<open>catch\<close> blocks of the pipelines.
\<close>

datatype error =
    TypeError
  | InvalidScoreFormat      \<comment> \<open>'Invalid score format'\<close>
  | ScoresOutOfRange        \<comment> \<open>'Scores must be between 0 and 25'\<close>
  | TotalOutOfRange         \<comment> \<open>'Total score must be between 0 and 100'\<close>
  | InvalidWinner           \<comment> \<open>'Invalid winner value'\<close>
  | InvalidScoreTypes       \<comment> \<open>'Invalid score types'\<close>
  | FieldOutOfRange string  \<comment> \<open>'logical_coherence must be 0-30' and its four siblings\<close>
  | TotalMismatch           \<comment> \<open>'Total score mismatch'\<close>
  | WinnerMismatch string   \<comment> \<open>'Winner mismatch: persona1 declared but has lower score'\<close>
  | ReasoningTooShort       \<comment> \<open>'Reasoning must be at least 20 characters'\<close>
  | MissingHighlights       \<comment> \<open>'Missing highlights'\<close>
  | MissingSuggestions      \<comment> \<open>'Missing improvement suggestions'\<close>
  | EvaluationParseError error  \<comment> \<open>'Failed to parse evaluation response: ' + cause\<close>
  | JudgeParseError error       \<comment> \<open>'Failed to parse judge response: ' + cause\<close>

section \<open>Prompt evaluation (prompt-evaluation.service.ts)\<close>

datatype QualityLevel = Low | Medium | High | Exceptional

datatype Tier = Common | Rare | Epic | Legendary

text \<open>
  A \<open>TierProbability\<close> object is held as the list of its entries in property order,
  which is what \<^verbatim>\<open>Object.entries\<close> iterates over in \<open>rollTier\<close>.
\<close>

type_synonym TierProbability = "(Tier \<times> real) list"

text \<open>
  The table is a \<^verbatim>\<open>Record<string, TierProbability>\<close>; indexing it with a key it does
  not have gives \<^verbatim>\<open>undefined\<close>, here \<open>None\<close>.
\<close>

definition TIER_PROBABILITIES :: "(QualityLevel \<times> TierProbability) list" where
  "TIER_PROBABILITIES =
    [(Exceptional, [(Common, 5), (Rare, 30), (Epic, 45), (Legendary, 20)]),
     (High,        [(Common, 25), (Rare, 40), (Epic, 28), (Legendary, 7)]),
     (Medium,      [(Common, 50), (Rare, 35), (Epic, 12), (Legendary, 3)]),
     (Low,         [(Common, 80), (Rare, 15), (Epic, 4), (Legendary, 1)])]"

definition getQualityLevel :: "real \<Rightarrow> QualityLevel" where
  "getQualityLevel total' =
    (if total' \<ge> 86 then Exceptional
     else if total' \<ge> 71 then High
     else if total' \<ge> 41 then Medium
     else Low)"

record PromptScore =
  specificity :: jsval
  creativity :: jsval
  coherence :: jsval
  complexity :: jsval
  total :: jsval
  reasoning :: jsval

text \<open>
  \<open>validateScore\<close> returns nothing and may assign \<^verbatim>\<open>score.total\<close>; the model returns
  the score object as it is after the call. The sum is taken from left to right, each
  addition rounding.
\<close>

definition validateScore :: "PromptScore \<Rightarrow> error + PromptScore" where
  "validateScore score =
    (if \<not> isNumber (specificity score) \<or> \<not> isNumber (PromptScore.creativity score) \<or>
        \<not> isNumber (coherence score) \<or> \<not> isNumber (complexity score) \<or>
        \<not> isNumber (PromptScore.total score)
     then Inl InvalidScoreFormat
     else
       let specificity = num_of (specificity score);
           creativity = num_of (PromptScore.creativity score);
           coherence = num_of (coherence score);
           complexity = num_of (complexity score);
           total = num_of (PromptScore.total score)
       in
         if specificity < 0 \<or> specificity > 25 \<or> creativity < 0 \<or> creativity > 25 \<or>
            coherence < 0 \<or> coherence > 25 \<or> complexity < 0 \<or> complexity > 25
         then Inl ScoresOutOfRange
         else if total < 0 \<or> total > 100
         then Inl TotalOutOfRange
         else
           let calculatedTotal = fadd (fadd (fadd specificity creativity) coherence) complexity
           in if \<bar>fsub calculatedTotal total\<bar> > 1
              then Inr (score\<lparr>PromptScore.total := Num calculatedTotal\<rparr>)
              else Inr score)"

text \<open>
  The loop of \<open>rollTier\<close> over the entries, with the running \<^verbatim>\<open>cumulative\<close>; falling
  out of the loop returns \<^verbatim>\<open>'common'\<close>.
\<close>

fun rollTier_loop :: "real \<Rightarrow> double \<Rightarrow> TierProbability \<Rightarrow> Tier" where
  "rollTier_loop roll cumulative [] = Common"
| "rollTier_loop roll cumulative ((tier, probability) # rest) =
    (let cumulative' = js_add cumulative (Finite probability)
     in if js_less (Finite roll) cumulative' then tier
        else rollTier_loop roll cumulative' rest)"

text \<open>\<open>roll\<close> is the value of \<^verbatim>\<open>Math.random() * 100\<close>, taken as an argument.\<close>

definition rollTier :: "real \<Rightarrow> TierProbability \<Rightarrow> Tier" where
  "rollTier roll probabilities = rollTier_loop roll (Finite 0) probabilities"

text \<open>
  The cumulative weight after the tier at position \<open>i\<close> of the iteration, in the words
  of the specification of the roller: the weights up to that tier, accumulated from 0
  in iteration order.
\<close>

definition cumulative_weight :: "TierProbability \<Rightarrow> nat \<Rightarrow> double" where
  "cumulative_weight probabilities i =
    foldl js_add (Finite 0) (map (\<lambda>entry. Finite (snd entry)) (take (Suc i) probabilities))"

section \<open>Strict validation of a persona score (battle-judge service)\<close>

record PersonaScore =
  logical_coherence :: jsval
  creativity :: jsval
  persuasiveness :: jsval
  topic_relevance :: jsval
  total :: jsval

text \<open>Destructuring an absent score object is a \<open>TypeError\<close>.\<close>

fun validatePersonaScore :: "PersonaScore option \<Rightarrow> error + unit" where
  "validatePersonaScore None = Inl TypeError"
| "validatePersonaScore (Some score) =
    (if \<not> isNumber (logical_coherence score) \<or> \<not> isNumber (PersonaScore.creativity score) \<or>
        \<not> isNumber (persuasiveness score) \<or> \<not> isNumber (topic_relevance score) \<or>
        \<not> isNumber (PersonaScore.total score)
     then Inl InvalidScoreTypes
     else
       let logical_coherence = num_of (logical_coherence score);
           creativity = num_of (PersonaScore.creativity score);
           persuasiveness = num_of (persuasiveness score);
           topic_relevance = num_of (topic_relevance score);
           total = num_of (PersonaScore.total score)
       in
         if logical_coherence < 0 \<or> logical_coherence > 30
         then Inl (FieldOutOfRange ''logical_coherence'')
         else if creativity < 0 \<or> creativity > 25
         then Inl (FieldOutOfRange ''creativity'')
         else if persuasiveness < 0 \<or> persuasiveness > 25
         then Inl (FieldOutOfRange ''persuasiveness'')
         else if topic_relevance < 0 \<or> topic_relevance > 20
         then Inl (FieldOutOfRange ''topic_relevance'')
         else if total < 0 \<or> total > 100
         then Inl (FieldOutOfRange ''total'')
         else
           let calculatedTotal =
                 fadd (fadd (fadd logical_coherence creativity) persuasiveness) topic_relevance
           in if \<bar>fsub calculatedTotal total\<bar> > 1 then Inl TotalMismatch else Inr ())"

text \<open>
  \<^verbatim>\<open>result.scores.personaN.total\<close>, read only after both score objects have passed
  \<open>validatePersonaScore\<close>, so the object is there and its total is a number.
\<close>

fun personaTotal :: "PersonaScore option \<Rightarrow> real" where
  "personaTotal (Some score) = num_of (PersonaScore.total score)"
| "personaTotal None = 0"

section \<open>The evaluation pipeline\<close>

record PromptEvaluationResponse =
  score :: PromptScore
  tierProbabilities :: "TierProbability option"
  qualityLevel :: QualityLevel

text \<open>
  \<open>evaluatePrompt\<close> from the parsed score on: the call of the text generator, the
  stripping of the fences and \<^verbatim>\<open>JSON.parse\<close> come before and are not modelled.
\<close>

definition evaluatePrompt :: "PromptScore \<Rightarrow> error + PromptEvaluationResponse" where
  "evaluatePrompt parsed =
    (case validateScore parsed of
       Inl e \<Rightarrow> Inl (EvaluationParseError e)
     | Inr validated \<Rightarrow>
         let qualityLevel = getQualityLevel (num_of (PromptScore.total validated));
             tierProbabilities = map_of TIER_PROBABILITIES qualityLevel
         in Inr \<lparr>score = validated, tierProbabilities = tierProbabilities,
                 qualityLevel = qualityLevel\<rparr>)"

section \<open>The judge pipeline\<close>

text \<open>
  The three inner objects of a \<open>BattleJudgeResponse\<close>. An inner object that the parsed
  text does not have is \<open>None\<close>.
\<close>

record Scores =
  persona1 :: "PersonaScore option"
  persona2 :: "PersonaScore option"

record Highlights =
  persona1_best :: jsval
  persona2_best :: jsval

record ImprovementSuggestions =
  persona1 :: jsval
  persona2 :: jsval

record BattleJudgeResponse =
  winner :: jsval
  scores :: "Scores option"
  reasoning :: jsval
  highlights :: "Highlights option"
  improvement_suggestions :: "ImprovementSuggestions option"

text \<open>\<^verbatim>\<open>!result.highlights?.persona1_best\<close> and its three siblings.\<close>

fun highlightMissing :: "Highlights option \<Rightarrow> (Highlights \<Rightarrow> jsval) \<Rightarrow> bool" where
  "highlightMissing None field = True"
| "highlightMissing (Some h) field = falsy (field h)"

fun suggestionMissing ::
  "ImprovementSuggestions option \<Rightarrow> (ImprovementSuggestions \<Rightarrow> jsval) \<Rightarrow> bool" where
  "suggestionMissing None field = True"
| "suggestionMissing (Some s) field = falsy (field s)"

definition validateJudgeResult :: "BattleJudgeResponse \<Rightarrow> error + unit" where
  "validateJudgeResult result =
    (if winner result \<noteq> Str ''persona1'' \<and> winner result \<noteq> Str ''persona2''
     then Inl InvalidWinner
     else
       case scores result of
         None \<Rightarrow> Inl TypeError
       | Some s \<Rightarrow>
          (case validatePersonaScore (Scores.persona1 s) of
             Inl e \<Rightarrow> Inl e
           | Inr u1 \<Rightarrow>
              (case validatePersonaScore (Scores.persona2 s) of
                 Inl e \<Rightarrow> Inl e
               | Inr u2 \<Rightarrow>
                  let p1Total = personaTotal (Scores.persona1 s);
                      p2Total = personaTotal (Scores.persona2 s)
                  in
                    if winner result = Str ''persona1'' \<and> p1Total < p2Total
                    then Inl (WinnerMismatch ''persona1'')
                    else if winner result = Str ''persona2'' \<and> p2Total < p1Total
                    then Inl (WinnerMismatch ''persona2'')
                    else if falsy (reasoning result) \<or> length_less (reasoning result) 20
                    then Inl ReasoningTooShort
                    else if highlightMissing (highlights result) persona1_best \<or>
                            highlightMissing (highlights result) persona2_best
                    then Inl MissingHighlights
                    else if suggestionMissing (improvement_suggestions result)
                              ImprovementSuggestions.persona1 \<or>
                            suggestionMissing (improvement_suggestions result)
                              ImprovementSuggestions.persona2
                    then Inl MissingSuggestions
                    else Inr ())))"

text \<open>
  \<open>judgeBattle\<close> from the parsed result on: every failure of the validation is wrapped,
  a result that passes is returned as it is.
\<close>

definition judgeBattle :: "BattleJudgeResponse \<Rightarrow> error + BattleJudgeResponse" where
  "judgeBattle parsed =
    (case validateJudgeResult parsed of
       Inl e \<Rightarrow> Inl (JudgeParseError e)
     | Inr u \<Rightarrow> Inr parsed)"

section \<open>Rounding: the facts used below\<close>

lemma round_even_of_int: "round_even (of_int z) = z"
  by (simp add: round_even_def)

lemma round_even_le: "q \<le> of_int c \<Longrightarrow> round_even q \<le> c"
proof -
  assume q: "q \<le> of_int c"
  then have f: "\<lfloor>q\<rfloor> \<le> c" by (metis floor_mono floor_of_int)
  show ?thesis
  proof (cases "\<lfloor>q\<rfloor> = c")
    case True
    then have "of_int c \<le> q" by (metis of_int_floor_le)
    with q have "q = of_int c" by simp
    then show ?thesis by (simp only: round_even_of_int)
  next
    case False
    with f have "\<lfloor>q\<rfloor> + 1 \<le> c" by simp
    with f show ?thesis unfolding round_even_def Let_def by (simp only: split: if_splits) auto
  qed
qed

lemma round_even_ge: "of_int a \<le> q \<Longrightarrow> a \<le> round_even q"
proof -
  assume "of_int a \<le> q"
  then have "a \<le> \<lfloor>q\<rfloor>" by (simp add: le_floor_iff)
  then show ?thesis unfolding round_even_def Let_def by (simp only: split: if_splits) auto
qed

lemma binade_eq:
  assumes "2 powr of_int e \<le> \<bar>x\<bar>" "\<bar>x\<bar> < 2 powr of_int (e + 1)"
  shows "binade x = max e (- 1022)"
proof -
  have "0 < (2::real) powr of_int e" by simp
  with assms(1) have pos: "0 < \<bar>x\<bar>" by linarith
  have "of_int e \<le> log 2 \<bar>x\<bar>"
    using assms(1) pos by (simp add: le_log_iff)
  moreover have "log 2 \<bar>x\<bar> < of_int (e + 1)"
    using assms(2) pos by (simp add: log_less_iff)
  ultimately have "\<lfloor>log 2 \<bar>x\<bar>\<rfloor> = e"
    by (intro floor_unique) auto
  then show ?thesis by (simp add: binade_def)
qed

lemma binade_le:
  assumes "x \<noteq> 0" "\<bar>x\<bar> < 2 powr of_int (e + 1)" "- 1022 \<le> e"
  shows "binade x \<le> e"
proof -
  have pos: "0 < \<bar>x\<bar>" using assms(1) by simp
  have "log 2 \<bar>x\<bar> < of_int (e + 1)"
    using assms(2) pos by (simp add: log_less_iff)
  then have "\<lfloor>log 2 \<bar>x\<bar>\<rfloor> \<le> e" by (simp add: floor_le_iff)
  with assms(3) show ?thesis by (simp add: binade_def)
qed

lemma powr_int_nonneg: "0 \<le> j \<Longrightarrow> (2::real) powr of_int j = of_int (2 ^ nat j)"
  by (simp add: powr_realpow [symmetric])

text \<open>A real that is a double is left as it is.\<close>

lemma to_double_exact:
  assumes m: "\<bar>m\<bar> < 2 ^ 53" and k: "- 1074 \<le> k"
  shows "to_double (of_int m * 2 powr of_int k) = of_int m * 2 powr of_int k"
proof (cases "m = 0")
  case True
  then show ?thesis by (simp add: to_double_def)
next
  case False
  let ?x = "of_int m * 2 powr of_int k :: real"
  have x0: "?x \<noteq> 0" using False by simp
  have "\<bar>?x\<bar> = of_int \<bar>m\<bar> * 2 powr of_int k" by (simp add: abs_mult)
  also have "\<dots> < 2 ^ 53 * 2 powr of_int k"
  proof -
    have "(of_int \<bar>m\<bar> :: real) < of_int (2 ^ 53)" using m by (simp only: of_int_less_iff)
    then show ?thesis by simp
  qed
  also have "\<dots> = 2 powr of_int (52 + k + 1)"
    by (simp add: powr_add)
  finally have bound: "\<bar>?x\<bar> < 2 powr of_int (52 + k + 1)" .
  have b: "binade ?x - 52 \<le> k"
  proof (cases "- 1022 \<le> 52 + k")
    case True
    from binade_le [OF x0 bound True] show ?thesis by simp
  next
    case False
    then have "(2::real) powr of_int (52 + k + 1) \<le> 2 powr of_int (- 1022 + 1)"
      by (intro powr_mono) simp_all
    with bound have "\<bar>?x\<bar> < 2 powr of_int (- 1022 + 1)" by linarith
    from binade_le [OF x0 this] k show ?thesis by simp
  qed
  define e where "e = binade ?x - 52"
  define j where "j = k - e"
  have j: "0 \<le> j" using b by (simp add: j_def e_def)
  have pj: "(2::real) powr of_int j = of_int (2 ^ nat j)"
    by (rule powr_int_nonneg [OF j])
  have "(2::real) powr of_int k = 2 powr of_int (j + e)" by (simp add: j_def)
  also have "\<dots> = of_int (2 ^ nat j) * 2 powr of_int e"
    by (simp only: of_int_add powr_add pj)
  finally have split: "(2::real) powr of_int k = of_int (2 ^ nat j) * 2 powr of_int e" .
  have q: "?x / 2 powr of_int e = of_int (m * 2 ^ nat j)"
    by (simp only: split) simp
  have "to_double ?x = of_int (round_even (?x / 2 powr of_int e)) * 2 powr of_int e"
    using x0 by (simp only: to_double_def e_def if_False)
  also have "\<dots> = of_int (m * 2 ^ nat j) * 2 powr of_int e"
    by (simp only: q round_even_of_int)
  also have "\<dots> = ?x"
    by (simp only: split) simp
  finally show ?thesis .
qed

lemma to_double_of_int: "\<bar>n\<bar> < 2 ^ 53 \<Longrightarrow> to_double (of_int n) = of_int n"
  using to_double_exact [of n 0] by simp

lemma to_double_numeral [simp]:
  "numeral w < (2 ^ 53 :: int) \<Longrightarrow> to_double (numeral w) = numeral w"
  using to_double_of_int [of "numeral w"] by simp

lemma to_double_neg_numeral [simp]:
  "numeral w < (2 ^ 53 :: int) \<Longrightarrow> to_double (- numeral w) = - numeral w"
  using to_double_of_int [of "- numeral w"] by simp

lemma to_double_0 [simp]: "to_double 0 = 0"
  by (simp add: to_double_def)

lemma to_double_1 [simp]: "to_double 1 = 1"
  using to_double_of_int [of 1] by simp

lemma to_double_neg_half [simp]: "to_double (- (1 / 2)) = - (1 / 2)"
  using to_double_exact [of "- 1" "- 1"] by (simp add: powr_minus)

text \<open>Whole numbers of the size of a score add and subtract without rounding.\<close>

lemma fadd_Ints:
  assumes "x \<in> \<int>" "y \<in> \<int>" "\<bar>x + y\<bar> < 2 ^ 53"
  shows "fadd x y = x + y"
proof -
  from assms(1,2) have "x + y \<in> \<int>" by simp
  then obtain n where n: "x + y = of_int n" by (auto elim: Ints_cases)
  with assms(3) have "(of_int \<bar>n\<bar> :: real) < of_int (2 ^ 53)" by simp
  then have "\<bar>n\<bar> < 2 ^ 53" by (simp only: of_int_less_iff)
  then show ?thesis by (simp add: fadd_def n to_double_of_int)
qed

lemma fsub_Ints:
  assumes "x \<in> \<int>" "y \<in> \<int>" "\<bar>x - y\<bar> < 2 ^ 53"
  shows "fsub x y = x - y"
proof -
  from assms(1,2) have "x - y \<in> \<int>" by simp
  then obtain n where n: "x - y = of_int n" by (auto elim: Ints_cases)
  with assms(3) have "(of_int \<bar>n\<bar> :: real) < of_int (2 ^ 53)" by simp
  then have "\<bar>n\<bar> < 2 ^ 53" by (simp only: of_int_less_iff)
  then show ?thesis by (simp add: fsub_def n to_double_of_int)
qed

text \<open>
  Rounding a real whose binade is known: with \<open>\<bar>x\<bar> * 2 ^ n\<close> between \<open>2 ^ 52\<close> and
  \<open>2 ^ 53\<close>, the double is the nearest multiple of \<open>1 / 2 ^ n\<close>.
\<close>

lemma to_double_at:
  assumes lo: "2 ^ 52 \<le> \<bar>x\<bar> * 2 ^ n" and hi: "\<bar>x\<bar> * 2 ^ n < 2 ^ 53" and n: "n \<le> 1074"
  shows "to_double x = of_int (round_even (x * 2 ^ n)) / 2 ^ n"
proof -
  define e where "e = 52 - int n"
  have pn: "(2::real) powr of_int (e - 52) = 1 / 2 ^ n"
    by (simp add: e_def powr_minus powr_realpow field_simps)
  have pe: "(2::real) powr of_int e = 2 ^ 52 / 2 ^ n"
    by (simp add: e_def powr_diff powr_realpow)
  have pe1: "(2::real) powr of_int (e + 1) = 2 ^ 53 / 2 ^ n"
    by (simp add: e_def powr_diff powr_add powr_realpow)
  have x0: "x \<noteq> 0" using lo by auto
  have "2 ^ 52 / 2 ^ n \<le> \<bar>x\<bar>" using lo by (simp add: field_simps)
  then have "2 powr of_int e \<le> \<bar>x\<bar>" by (simp only: pe)
  moreover have "\<bar>x\<bar> < 2 ^ 53 / 2 ^ n" using hi by (simp add: field_simps)
  then have "\<bar>x\<bar> < 2 powr of_int (e + 1)" by (simp only: pe1)
  ultimately have "binade x = max e (- 1022)" by (rule binade_eq)
  with n have b: "binade x = e" by (simp add: e_def)
  have "to_double x = of_int (round_even (x / 2 powr of_int (e - 52))) * 2 powr of_int (e - 52)"
    using x0 by (simp only: to_double_def b if_False)
  also have "\<dots> = of_int (round_even (x * 2 ^ n)) / 2 ^ n"
    by (simp only: pn) simp
  finally show ?thesis .
qed

text \<open>Rounding does not carry a real of size at most 1 beyond 1.\<close>

lemma to_double_abs_le_1:
  assumes "\<bar>x\<bar> \<le> 1"
  shows "\<bar>to_double x\<bar> \<le> 1"
proof (cases "x = 0")
  case True
  then show ?thesis by simp
next
  case False
  define e where "e = binade x - 52"
  have "\<bar>x\<bar> < 2 powr of_int (0 + 1)" using assms by simp
  from binade_le [OF False this] have e: "e \<le> - 52" by (simp add: e_def)
  define N where "N = (2::int) ^ nat (- e)"
  have pN: "(2::real) powr of_int (- e) = of_int N"
    unfolding N_def using e by (intro powr_int_nonneg) simp
  have "(2::real) powr of_int e = 1 / 2 powr of_int (- e)"
    by (simp add: powr_minus field_simps)
  then have u: "(2::real) powr of_int e = 1 / of_int N" by (simp only: pN)
  have Npos: "0 < (of_int N :: real)" by (simp add: N_def)
  have xs: "x \<le> 1" "- 1 \<le> x" using assms by (simp_all add: abs_le_iff)
  have "x * of_int N \<le> 1 * of_int N"
    using xs(1) Npos by (intro mult_right_mono) simp_all
  then have up: "x * of_int N \<le> of_int N" by simp
  have "(- 1) * of_int N \<le> x * of_int N"
    using xs(2) Npos by (intro mult_right_mono) simp_all
  then have lo: "of_int (- N) \<le> x * of_int N" by simp
  define z where "z = round_even (x * of_int N)"
  have "z \<le> N" unfolding z_def by (rule round_even_le [OF up])
  moreover have "- N \<le> z" unfolding z_def by (rule round_even_ge [OF lo])
  ultimately have "\<bar>z\<bar> \<le> N" by simp
  then have r: "\<bar>of_int z :: real\<bar> \<le> of_int N"
    by (metis of_int_abs of_int_le_iff)
  have "to_double x = of_int (round_even (x / (1 / of_int N))) * (1 / of_int N)"
    using False by (simp only: to_double_def e_def [symmetric] if_False u)
  then have "to_double x = of_int z / of_int N" by (simp add: z_def)
  then have "\<bar>to_double x\<bar> = \<bar>of_int z :: real\<bar> / of_int N"
    using Npos by simp
  also have "\<dots> \<le> 1" using r Npos by simp
  finally show ?thesis .
qed

text \<open>
  Two ties and an overflow. \<open>2 - (1 - 2 ^ - 53)\<close> lies halfway between 1 and the next
  double and goes down to 1; \<open>1 + 3 * 2 ^ - 53\<close> lies halfway between two doubles and goes
  up to the even one; and twice \<open>2 ^ 1023\<close> is infinite.
\<close>

lemma fsub_tie_down: "fsub 2 (9007199254740991 / 9007199254740992) = 1"
  unfolding fsub_def by (subst to_double_at [where n = 52]) (simp_all add: round_even_def)

lemma fadd_tie_up: "fadd 1 (3 / 9007199254740992) = 2251799813685249 / 2251799813685248"
  unfolding fadd_def by (subst to_double_at [where n = 52]) (simp_all add: round_even_def)

lemma js_add_overflow: "js_add (Finite (2 ^ 1023)) (Finite (2 ^ 1023)) = PosInf"
proof -
  have "to_double (of_int 1 * 2 powr of_int 1024) = of_int 1 * 2 powr of_int 1024"
    by (rule to_double_exact) simp_all
  moreover have "(2::real) powr of_int 1024 = 2 ^ 1024"
    using powr_realpow [of 2 1024] by simp
  ultimately have "to_double (2 ^ 1024) = 2 ^ 1024" by simp
  moreover have "(2::real) ^ 1023 + 2 ^ 1023 = 2 ^ 1024" by simp
  ultimately have "fadd (2 ^ 1023) (2 ^ 1023) = 2 ^ 1024" by (simp only: fadd_def)
  then show ?thesis by (simp only: js_add.simps of_rounded_def) simp
qed

section \<open>The probability table\<close>

text \<open>
  C7. The table has a row for each of the four quality bands, each row is the row of
  the specification (exceptional 5/30/45/20, high 25/40/28/7, medium 50/35/12/3,
  low 80/15/4/1), and the four weights of every row add up to exactly 100.
\<close>

theorem TIER_PROBABILITIES_rows:
  "map_of TIER_PROBABILITIES Exceptional =
      Some [(Common, 5), (Rare, 30), (Epic, 45), (Legendary, 20)] \<and>
   map_of TIER_PROBABILITIES High =
      Some [(Common, 25), (Rare, 40), (Epic, 28), (Legendary, 7)] \<and>
   map_of TIER_PROBABILITIES Medium =
      Some [(Common, 50), (Rare, 35), (Epic, 12), (Legendary, 3)] \<and>
   map_of TIER_PROBABILITIES Low =
      Some [(Common, 80), (Rare, 15), (Epic, 4), (Legendary, 1)] \<and>
   (\<forall>q. \<exists>row. map_of TIER_PROBABILITIES q = Some row \<and>
        map fst row = [Common, Rare, Epic, Legendary] \<and>
        sum_list (map snd row) = 100)"
proof -
  have rows:
    "map_of TIER_PROBABILITIES Exceptional =
        Some [(Common, 5), (Rare, 30), (Epic, 45), (Legendary, 20)]"
    "map_of TIER_PROBABILITIES High =
        Some [(Common, 25), (Rare, 40), (Epic, 28), (Legendary, 7)]"
    "map_of TIER_PROBABILITIES Medium =
        Some [(Common, 50), (Rare, 35), (Epic, 12), (Legendary, 3)]"
    "map_of TIER_PROBABILITIES Low =
        Some [(Common, 80), (Rare, 15), (Epic, 4), (Legendary, 1)]"
    by (simp_all add: TIER_PROBABILITIES_def)
  have "\<exists>row. map_of TIER_PROBABILITIES q = Some row \<and>
        map fst row = [Common, Rare, Epic, Legendary] \<and>
        sum_list (map snd row) = 100" for q
    by (cases q) (simp_all add: rows)
  with rows show ?thesis by blast
qed

section \<open>The quality classifier\<close>

text \<open>
  C3, as amended. The classifier returns exceptional exactly from 86 up, high exactly on
  71 up to (not including) 86, medium exactly on 41 up to (not including) 71 and low
  exactly below 41. On whole totals these are the bands 71..85, 41..70 and up to 40; the
  eight values 100, 86, 85, 71, 70, 41, 40 and 0 fall as listed. Being a function of the
  total alone, the result is determined by it.
\<close>

theorem getQualityLevel_bands:
  "(getQualityLevel t = Exceptional \<longleftrightarrow> 86 \<le> t) \<and>
   (getQualityLevel t = High \<longleftrightarrow> 71 \<le> t \<and> t < 86) \<and>
   (getQualityLevel t = Medium \<longleftrightarrow> 41 \<le> t \<and> t < 71) \<and>
   (getQualityLevel t = Low \<longleftrightarrow> t < 41) \<and>
   (getQualityLevel (of_int n) = Exceptional \<longleftrightarrow> 86 \<le> n) \<and>
   (getQualityLevel (of_int n) = High \<longleftrightarrow> 71 \<le> n \<and> n \<le> 85) \<and>
   (getQualityLevel (of_int n) = Medium \<longleftrightarrow> 41 \<le> n \<and> n \<le> 70) \<and>
   (getQualityLevel (of_int n) = Low \<longleftrightarrow> n \<le> 40) \<and>
   getQualityLevel 100 = Exceptional \<and> getQualityLevel 86 = Exceptional \<and>
   getQualityLevel 85 = High \<and> getQualityLevel 71 = High \<and>
   getQualityLevel 70 = Medium \<and> getQualityLevel 41 = Medium \<and>
   getQualityLevel 40 = Low \<and> getQualityLevel 0 = Low"
  by (auto simp add: getQualityLevel_def)

text \<open>
  A total of 85.5 lies in [0,100] and is classified high although it is above 85. The
  evaluation pipeline does hand such a total to the classifier: with the sub-scores
  21, 21, 21 and 22 the declared total 85.5 is within the tolerance and is kept.
\<close>

theorem getQualityLevel_fractional_counterexample:
  "getQualityLevel (171 / 2) = High \<and> (0 :: real) \<le> 171 / 2 \<and> (171 / 2 :: real) \<le> 100 \<and>
   \<not> (171 / 2 :: real) \<le> 85 \<and>
   evaluatePrompt \<lparr>specificity = Num 21, creativity = Num 21, coherence = Num 21,
      complexity = Num 22, total = Num (171 / 2), reasoning = Str ''ok''\<rparr>
   = Inr \<lparr>score = \<lparr>specificity = Num 21, creativity = Num 21, coherence = Num 21,
        complexity = Num 22, total = Num (171 / 2), reasoning = Str ''ok''\<rparr>,
      tierProbabilities = Some [(Common, 25), (Rare, 40), (Epic, 28), (Legendary, 7)],
      qualityLevel = High\<rparr>"
  by (simp add: evaluatePrompt_def validateScore_def getQualityLevel_def TIER_PROBABILITIES_def
      fadd_def fsub_def)

section \<open>The tier roller\<close>

lemma rollTier_loop_first:
  "i < length es \<Longrightarrow>
   js_less (Finite roll) (foldl js_add c (map (\<lambda>entry. Finite (snd entry)) (take (Suc i) es))) \<Longrightarrow>
   (\<forall>j<i. \<not> js_less (Finite roll)
      (foldl js_add c (map (\<lambda>entry. Finite (snd entry)) (take (Suc j) es)))) \<Longrightarrow>
   rollTier_loop roll c es = fst (es ! i)"
proof (induction es arbitrary: c i)
  case Nil
  then show ?case by simp
next
  case (Cons e es)
  obtain t p where e: "e = (t, p)" by (cases e)
  show ?case
  proof (cases i)
    case 0
    with Cons.prems e show ?thesis by simp
  next
    case (Suc k)
    from Cons.prems(3) Suc have first: "\<not> js_less (Finite roll) (js_add c (Finite p))"
      using e by (auto dest: spec [of _ 0])
    have k: "k < length es" using Cons.prems(1) Suc by simp
    have hit: "js_less (Finite roll)
        (foldl js_add (js_add c (Finite p)) (map (\<lambda>entry. Finite (snd entry)) (take (Suc k) es)))"
      using Cons.prems(2) Suc e by simp
    have miss: "\<forall>j<k. \<not> js_less (Finite roll)
        (foldl js_add (js_add c (Finite p)) (map (\<lambda>entry. Finite (snd entry)) (take (Suc j) es)))"
    proof (intro allI impI)
      fix j assume "j < k"
      then have "Suc j < i" using Suc by simp
      with Cons.prems(3) have "\<not> js_less (Finite roll)
          (foldl js_add c (map (\<lambda>entry. Finite (snd entry)) (take (Suc (Suc j)) (e # es))))"
        by blast
      then show "\<not> js_less (Finite roll)
          (foldl js_add (js_add c (Finite p)) (map (\<lambda>entry. Finite (snd entry)) (take (Suc j) es)))"
        using e by simp
    qed
    from Cons.IH [OF k hit miss] first e Suc show ?thesis by simp
  qed
qed

lemma rollTier_loop_none:
  "(\<forall>i<length es. \<not> js_less (Finite roll)
      (foldl js_add c (map (\<lambda>entry. Finite (snd entry)) (take (Suc i) es)))) \<Longrightarrow>
   rollTier_loop roll c es = Common"
proof (induction es arbitrary: c)
  case Nil
  then show ?case by simp
next
  case (Cons e es)
  obtain t p where e: "e = (t, p)" by (cases e)
  from Cons.prems have first: "\<not> js_less (Finite roll) (js_add c (Finite p))"
    using e by (auto dest: spec [of _ 0])
  have rest: "\<forall>i<length es. \<not> js_less (Finite roll)
      (foldl js_add (js_add c (Finite p)) (map (\<lambda>entry. Finite (snd entry)) (take (Suc i) es)))"
  proof (intro allI impI)
    fix i assume "i < length es"
    then have "Suc i < length (e # es)" by simp
    with Cons.prems have "\<not> js_less (Finite roll)
        (foldl js_add c (map (\<lambda>entry. Finite (snd entry)) (take (Suc (Suc i)) (e # es))))"
      by blast
    then show "\<not> js_less (Finite roll)
        (foldl js_add (js_add c (Finite p)) (map (\<lambda>entry. Finite (snd entry)) (take (Suc i) es)))"
      using e by simp
  qed
  from Cons.IH [OF rest] first e show ?case by simp
qed

text \<open>
  C2. For every distribution and every draw, \<open>rollTier\<close> returns the first tier in
  iteration order whose cumulative weight, the running sum that the loop has
  accumulated, is strictly above the draw, and \<open>Common\<close> when no cumulative weight is
  above it. On every row of the table the cumulative weights are the exact partial
  sums, and a draw of 0 gives \<open>Common\<close>; the cumulative weights of the exceptional row
  are 5, 35, 80 and 100, and a draw of 99 on it gives \<open>Legendary\<close>.
\<close>

theorem rollTier_first_exceeding:
  "(\<forall>i. i < length probabilities \<and>
        js_less (Finite roll) (cumulative_weight probabilities i) \<and>
        (\<forall>j<i. \<not> js_less (Finite roll) (cumulative_weight probabilities j))
        \<longrightarrow> rollTier roll probabilities = fst (probabilities ! i)) \<and>
   ((\<forall>i<length probabilities. \<not> js_less (Finite roll) (cumulative_weight probabilities i))
        \<longrightarrow> rollTier roll probabilities = Common) \<and>
   (\<forall>q row. map_of TIER_PROBABILITIES q = Some row \<longrightarrow>
        rollTier 0 row = Common \<and>
        (\<forall>i<length row.
           cumulative_weight row i = Finite (sum_list (map snd (take (Suc i) row))))) \<and>
   map (cumulative_weight [(Common, 5), (Rare, 30), (Epic, 45), (Legendary, 20)]) [0, 1, 2, 3]
      = [Finite 5, Finite 35, Finite 80, Finite 100] \<and>
   rollTier 99 [(Common, 5), (Rare, 30), (Epic, 45), (Legendary, 20)] = Legendary"
proof (intro conjI allI impI)
  fix i
  assume "i < length probabilities \<and>
        js_less (Finite roll) (cumulative_weight probabilities i) \<and>
        (\<forall>j<i. \<not> js_less (Finite roll) (cumulative_weight probabilities j))"
  then show "rollTier roll probabilities = fst (probabilities ! i)"
    using rollTier_loop_first [of i probabilities roll "Finite 0"]
    by (simp add: rollTier_def cumulative_weight_def)
next
  assume "\<forall>i<length probabilities. \<not> js_less (Finite roll) (cumulative_weight probabilities i)"
  then show "rollTier roll probabilities = Common"
    using rollTier_loop_none [of probabilities roll "Finite 0"]
    by (simp add: rollTier_def cumulative_weight_def)
next
  fix q row
  assume "map_of TIER_PROBABILITIES q = Some row"
  then show "rollTier 0 row = Common"
    by (cases q) (auto simp add: TIER_PROBABILITIES_def rollTier_def fadd_def of_rounded_def)
next
  fix q row i
  assume row: "map_of TIER_PROBABILITIES q = Some row" and i: "i < length row"
  from row have "length row = 4" by (cases q) (auto simp add: TIER_PROBABILITIES_def)
  with i have "i = 0 \<or> i = 1 \<or> i = 2 \<or> i = 3" by arith
  with row show "cumulative_weight row i = Finite (sum_list (map snd (take (Suc i) row)))"
    by (cases q)
      (auto simp add: TIER_PROBABILITIES_def cumulative_weight_def fadd_def of_rounded_def
        numeral_2_eq_2 numeral_3_eq_3)
next
  show "map (cumulative_weight [(Common, 5), (Rare, 30), (Epic, 45), (Legendary, 20)]) [0, 1, 2, 3]
      = [Finite 5, Finite 35, Finite 80, Finite 100]"
    by (simp add: cumulative_weight_def fadd_def of_rounded_def numeral_2_eq_2 numeral_3_eq_3)
next
  show "rollTier 99 [(Common, 5), (Rare, 30), (Epic, 45), (Legendary, 20)] = Legendary"
    by (simp add: rollTier_def fadd_def of_rounded_def)
qed

text \<open>
  The row 46, 20.6, 14.1, 19.3, written with the doubles that these decimals denote. Its
  cumulative weights are 46, 66.6, 80.69999999999999 and 99.99999999999999: a draw of 66.6
  is not below the second and gives \<open>Epic\<close>, and the largest draw below 100 is not below
  the last and falls through to \<open>Common\<close>.
\<close>

theorem rollTier_first_exceeding_witness:
  "map (cumulative_weight
     [(Common, 46), (Rare, 2899192260119757 / 140737488355328),
      (Epic, 7937594343240499 / 562949953421312),
      (Legendary, 5432467050515661 / 281474976710656)]) [0, 1, 2, 3]
   = [Finite 46, Finite (2343279181116211 / 35184372088832),
      Finite (1419689413784371 / 17592186044416),
      Finite (7036874417766399 / 70368744177664)] \<and>
   rollTier (2343279181116211 / 35184372088832)
     [(Common, 46), (Rare, 2899192260119757 / 140737488355328),
      (Epic, 7937594343240499 / 562949953421312),
      (Legendary, 5432467050515661 / 281474976710656)] = Epic \<and>
   rollTier (7036874417766399 / 70368744177664)
     [(Common, 46), (Rare, 2899192260119757 / 140737488355328),
      (Epic, 7937594343240499 / 562949953421312),
      (Legendary, 5432467050515661 / 281474976710656)] = Common"
proof -
  let ?row = "[(Common, 46), (Rare, 2899192260119757 / 140737488355328),
      (Epic, 7937594343240499 / 562949953421312),
      (Legendary, 5432467050515661 / 281474976710656)] :: TierProbability"
  have s1: "fadd 0 46 = 46" by (simp add: fadd_def)
  have s2: "fadd 46 (2899192260119757 / 140737488355328) = 2343279181116211 / 35184372088832"
    unfolding fadd_def by (subst to_double_at [where n = 46]) (simp_all add: round_even_def)
  have s3: "fadd (2343279181116211 / 35184372088832) (7937594343240499 / 562949953421312)
      = 1419689413784371 / 17592186044416"
    unfolding fadd_def by (subst to_double_at [where n = 46]) (simp_all add: round_even_def)
  have s4: "fadd (1419689413784371 / 17592186044416) (5432467050515661 / 281474976710656)
      = 7036874417766399 / 70368744177664"
    unfolding fadd_def by (subst to_double_at [where n = 46]) (simp_all add: round_even_def)
  have cw: "cumulative_weight ?row 0 = Finite 46"
    "cumulative_weight ?row 1 = Finite (2343279181116211 / 35184372088832)"
    "cumulative_weight ?row 2 = Finite (1419689413784371 / 17592186044416)"
    "cumulative_weight ?row 3 = Finite (7036874417766399 / 70368744177664)"
    by (simp_all add: cumulative_weight_def s1 s2 s3 s4 of_rounded_def
        numeral_2_eq_2 numeral_3_eq_3)
  have epic: "2 < length ?row \<and>
      js_less (Finite (2343279181116211 / 35184372088832)) (cumulative_weight ?row 2) \<and>
      (\<forall>j<2. \<not> js_less (Finite (2343279181116211 / 35184372088832)) (cumulative_weight ?row j))"
    using cw by (simp add: less_Suc_eq numeral_2_eq_2)
  have none: "\<forall>i<length ?row.
      \<not> js_less (Finite (7036874417766399 / 70368744177664)) (cumulative_weight ?row i)"
    using cw by (simp add: less_Suc_eq numeral_2_eq_2 numeral_3_eq_3)
  from rollTier_first_exceeding [of ?row "2343279181116211 / 35184372088832"] epic
  have "rollTier (2343279181116211 / 35184372088832) ?row = fst (?row ! 2)" by blast
  moreover from rollTier_first_exceeding [of ?row "7036874417766399 / 70368744177664"] none
  have "rollTier (7036874417766399 / 70368744177664) ?row = Common" by blast
  ultimately show ?thesis using cw by simp
qed

section \<open>Lenient validation of a prompt score\<close>

lemma validateScore_in_range:
  assumes "specificity s = Num a" "PromptScore.creativity s = Num b" "coherence s = Num c"
    "complexity s = Num d" "PromptScore.total s = Num t"
    "0 \<le> a" "a \<le> 25" "0 \<le> b" "b \<le> 25" "0 \<le> c" "c \<le> 25" "0 \<le> d" "d \<le> 25"
    "0 \<le> t" "t \<le> 100"
  shows "validateScore s =
     Inr (if \<bar>fsub (fadd (fadd (fadd a b) c) d) t\<bar> > 1
          then s\<lparr>PromptScore.total := Num (fadd (fadd (fadd a b) c) d)\<rparr> else s)"
  using assms by (simp add: validateScore_def Let_def)

lemma validateScore_Inr:
  assumes "validateScore s = Inr s'"
  shows "s' =
     (if \<bar>fsub (fadd (fadd (fadd (num_of (specificity s)) (num_of (PromptScore.creativity s)))
                   (num_of (coherence s))) (num_of (complexity s)))
              (num_of (PromptScore.total s))\<bar> > 1
      then s\<lparr>PromptScore.total :=
             Num (fadd (fadd (fadd (num_of (specificity s)) (num_of (PromptScore.creativity s)))
                    (num_of (coherence s))) (num_of (complexity s)))\<rparr>
      else s)"
  using assms by (simp add: validateScore_def Let_def split: if_splits)

lemma fadd_whole_scores:
  assumes "a \<in> \<int>" "b \<in> \<int>" "c \<in> \<int>" "d \<in> \<int>"
    "0 \<le> a" "a \<le> 30" "0 \<le> b" "b \<le> 30" "0 \<le> c" "c \<le> 30" "0 \<le> d" "d \<le> 30"
  shows "fadd (fadd (fadd a b) c) d = a + b + c + d"
proof -
  have ab: "fadd a b = a + b" using assms by (intro fadd_Ints) simp_all
  have abc: "fadd (a + b) c = a + b + c" using assms by (intro fadd_Ints) simp_all
  have abcd: "fadd (a + b + c) d = a + b + c + d" using assms by (intro fadd_Ints) simp_all
  show ?thesis by (simp only: ab abc abcd)
qed

lemma fsub_whole_scores:
  assumes "a \<in> \<int>" "b \<in> \<int>" "c \<in> \<int>" "d \<in> \<int>" "t \<in> \<int>"
    "0 \<le> a" "a \<le> 30" "0 \<le> b" "b \<le> 30" "0 \<le> c" "c \<le> 30" "0 \<le> d" "d \<le> 30"
    "0 \<le> t" "t \<le> 100"
  shows "fsub (fadd (fadd (fadd a b) c) d) t = a + b + c + d - t"
proof -
  have "fsub (a + b + c + d) t = a + b + c + d - t" using assms by (intro fsub_Ints) simp_all
  with fadd_whole_scores [OF assms(1-4) assms(6-13)] show ?thesis by simp
qed

text \<open>
  C1, as amended. For every score whose four sub-scores are numbers in [0,25] and whose
  declared total is a number in [0,100], lenient validation succeeds. The resulting
  total is the sum of the four sub-scores, as the doubles add up from left to right,
  when the declared total is more than 1 away from that sum by the subtraction of
  doubles, and is the declared total otherwise; either way it is within 1 of the sum.
  For whole sub-scores the sum is the exact one, and for a whole total so is the
  difference.
\<close>

theorem validateScore_total_within_tolerance:
  assumes "specificity s = Num a" "PromptScore.creativity s = Num b" "coherence s = Num c"
    "complexity s = Num d" "PromptScore.total s = Num t"
    "0 \<le> a" "a \<le> 25" "0 \<le> b" "b \<le> 25" "0 \<le> c" "c \<le> 25" "0 \<le> d" "d \<le> 25"
    "0 \<le> t" "t \<le> 100"
  shows "let calculatedTotal = fadd (fadd (fadd a b) c) d;
             result = (if \<bar>fsub calculatedTotal t\<bar> > 1 then calculatedTotal else t)
         in validateScore s = Inr (s\<lparr>PromptScore.total := Num result\<rparr>) \<and>
            \<bar>fsub calculatedTotal result\<bar> \<le> 1 \<and>
            (a \<in> \<int> \<and> b \<in> \<int> \<and> c \<in> \<int> \<and> d \<in> \<int> \<longrightarrow> calculatedTotal = a + b + c + d) \<and>
            (a \<in> \<int> \<and> b \<in> \<int> \<and> c \<in> \<int> \<and> d \<in> \<int> \<and> t \<in> \<int> \<longrightarrow>
               fsub calculatedTotal t = a + b + c + d - t)"
proof -
  define S where "S = fadd (fadd (fadd a b) c) d"
  have same: "s\<lparr>PromptScore.total := Num t\<rparr> = s" using assms(5) by simp
  have run: "validateScore s =
      Inr (s\<lparr>PromptScore.total := Num (if \<bar>fsub S t\<bar> > 1 then S else t)\<rparr>)"
    using validateScore_in_range [OF assms] same by (simp add: S_def)
  have near: "\<bar>fsub S (if \<bar>fsub S t\<bar> > 1 then S else t)\<bar> \<le> 1"
    by (simp add: fsub_def)
  have whole: "a \<in> \<int> \<and> b \<in> \<int> \<and> c \<in> \<int> \<and> d \<in> \<int> \<longrightarrow> S = a + b + c + d"
    unfolding S_def using assms(6-13) by (auto intro!: fadd_whole_scores)
  have diff: "a \<in> \<int> \<and> b \<in> \<int> \<and> c \<in> \<int> \<and> d \<in> \<int> \<and> t \<in> \<int> \<longrightarrow> fsub S t = a + b + c + d - t"
    unfolding S_def using assms(6-15) by (auto intro!: fsub_whole_scores)
  from run near whole diff show ?thesis
    unfolding Let_def S_def by blast
qed

theorem validateScore_total_within_tolerance_witness:
  "validateScore \<lparr>specificity = Num 20, creativity = Num 18, coherence = Num 22,
      complexity = Num 15, total = Num 50, reasoning = Str ''ok''\<rparr>
   = Inr \<lparr>specificity = Num 20, creativity = Num 18, coherence = Num 22,
      complexity = Num 15, total = Num 75, reasoning = Str ''ok''\<rparr>"
  using validateScore_total_within_tolerance [of "\<lparr>specificity = Num 20, creativity = Num 18,
      coherence = Num 22, complexity = Num 15, total = Num 50, reasoning = Str ''ok''\<rparr>"
      20 18 22 15 50]
  by (simp add: Let_def fadd_def fsub_def)

text \<open>
  The sub-scores 20, 18, 22 and 15 add up to 75; a declared total of 74 is accepted and
  stays 74.
\<close>

theorem validateScore_keeps_close_total_counterexample:
  "validateScore \<lparr>specificity = Num 20, creativity = Num 18, coherence = Num 22,
      complexity = Num 15, total = Num 74, reasoning = Str ''ok''\<rparr>
   = Inr \<lparr>specificity = Num 20, creativity = Num 18, coherence = Num 22,
      complexity = Num 15, total = Num 74, reasoning = Str ''ok''\<rparr>
   \<and> (20 + 18 + 22 + 15 :: real) = 75 \<and> Num 74 \<noteq> Num 75"
  by (simp add: validateScore_def fadd_def fsub_def)

text \<open>
  Two scores with fractional sub-scores, written with the doubles that the decimals
  denote. With 0.1, 4.9, 0, 0 the sum rounds to 5, so a declared total of 4 is exactly 1
  away and is kept. With 11.2, 24, 12.6, 14.1 the sum rounds to 61.900000000000006, so a
  declared total of 60.9 is more than 1 away and is replaced by that sum.
\<close>

lemma validateScore_rounded_sum_keeps:
  "validateScore \<lparr>specificity = Num (3602879701896397 / 36028797018963968),
      creativity = Num (2758454771764429 / 562949953421312), coherence = Num 0,
      complexity = Num 0, total = Num 4, reasoning = Str ''ok''\<rparr>
   = Inr \<lparr>specificity = Num (3602879701896397 / 36028797018963968),
      creativity = Num (2758454771764429 / 562949953421312), coherence = Num 0,
      complexity = Num 0, total = Num 4, reasoning = Str ''ok''\<rparr>"
proof -
  have s1: "fadd (3602879701896397 / 36028797018963968) (2758454771764429 / 562949953421312) = 5"
    unfolding fadd_def by (subst to_double_at [where n = 50]) (simp_all add: round_even_def)
  have s2: "fadd 5 0 = 5" by (simp add: fadd_def)
  have s3: "fsub 5 4 = 1" by (simp add: fsub_def)
  show ?thesis by (simp add: validateScore_def s1 s2 s3)
qed

lemma validateScore_rounded_sum_overwrites:
  "validateScore \<lparr>specificity = Num (3152519739159347 / 281474976710656),
      creativity = Num 24, coherence = Num (7093169413108531 / 562949953421312),
      complexity = Num (7937594343240499 / 562949953421312),
      total = Num (8570913040839475 / 140737488355328), reasoning = Str ''ok''\<rparr>
   = Inr \<lparr>specificity = Num (3152519739159347 / 281474976710656),
      creativity = Num 24, coherence = Num (7093169413108531 / 562949953421312),
      complexity = Num (7937594343240499 / 562949953421312),
      total = Num (2177912632298701 / 35184372088832), reasoning = Str ''ok''\<rparr>"
proof -
  have s1: "fadd (3152519739159347 / 281474976710656) 24 = 2476979795053773 / 70368744177664"
    unfolding fadd_def by (subst to_double_at [where n = 47]) (simp_all add: round_even_def)
  have s2: "fadd (2476979795053773 / 70368744177664) (7093169413108531 / 562949953421312)
      = 6727251943384679 / 140737488355328"
    unfolding fadd_def by (subst to_double_at [where n = 47]) (simp_all add: round_even_def)
  have s3: "fadd (6727251943384679 / 140737488355328) (7937594343240499 / 562949953421312)
      = 2177912632298701 / 35184372088832"
    unfolding fadd_def by (subst to_double_at [where n = 47]) (simp_all add: round_even_def)
  have s4: "fsub (2177912632298701 / 35184372088832) (8570913040839475 / 140737488355328)
      = 140737488355329 / 140737488355328"
    unfolding fsub_def by (subst to_double_at [where n = 52]) (simp_all add: round_even_def)
  show ?thesis by (simp add: validateScore_def s1 s2 s3 s4)
qed

text \<open>
  C9. A score that passes lenient validation comes back with its four sub-scores and its
  reasoning unchanged: nothing but the total field can differ. The total is replaced by
  the recomputed sum exactly when the subtraction of doubles puts the declared total
  more than 1 away from it, and is the declared total otherwise; in particular it is
  kept whenever the declared total is at most 1 away from the recomputed sum.
\<close>

theorem validateScore_frame:
  assumes "validateScore s = Inr s'"
  shows "let calculatedTotal =
               fadd (fadd (fadd (num_of (specificity s)) (num_of (PromptScore.creativity s)))
                       (num_of (coherence s))) (num_of (complexity s));
             declared = num_of (PromptScore.total s)
         in specificity s' = specificity s \<and>
            PromptScore.creativity s' = PromptScore.creativity s \<and>
            coherence s' = coherence s \<and> complexity s' = complexity s \<and>
            PromptScore.reasoning s' = PromptScore.reasoning s \<and>
            s' = s\<lparr>PromptScore.total := PromptScore.total s'\<rparr> \<and>
            PromptScore.total s' =
              (if \<bar>fsub calculatedTotal declared\<bar> > 1 then Num calculatedTotal
               else PromptScore.total s) \<and>
            (\<bar>calculatedTotal - declared\<bar> \<le> 1 \<longrightarrow> PromptScore.total s' = PromptScore.total s)"
proof -
  define S where "S = fadd (fadd (fadd (num_of (specificity s))
      (num_of (PromptScore.creativity s))) (num_of (coherence s))) (num_of (complexity s))"
  define t where "t = num_of (PromptScore.total s)"
  from validateScore_Inr [OF assms]
  have s': "s' = (if \<bar>fsub S t\<bar> > 1 then s\<lparr>PromptScore.total := Num S\<rparr> else s)"
    by (simp only: S_def t_def)
  have close: "\<bar>S - t\<bar> \<le> 1 \<longrightarrow> \<not> \<bar>fsub S t\<bar> > 1"
    using to_double_abs_le_1 [of "S - t"] by (auto simp add: fsub_def)
  from s' close show ?thesis
    unfolding Let_def S_def [symmetric] t_def [symmetric] by (simp split: if_splits)
qed

theorem validateScore_frame_witness:
  "validateScore \<lparr>specificity = Num (3602879701896397 / 36028797018963968),
      creativity = Num (2758454771764429 / 562949953421312), coherence = Num 0,
      complexity = Num 0, total = Num 4, reasoning = Str ''ok''\<rparr>
   = Inr \<lparr>specificity = Num (3602879701896397 / 36028797018963968),
      creativity = Num (2758454771764429 / 562949953421312), coherence = Num 0,
      complexity = Num 0, total = Num 4, reasoning = Str ''ok''\<rparr> \<and>
   PromptScore.total \<lparr>specificity = Num (3602879701896397 / 36028797018963968),
      creativity = Num (2758454771764429 / 562949953421312), coherence = Num 0,
      complexity = Num 0, total = Num 4, reasoning = Str ''ok''\<rparr> = Num 4"
  using validateScore_frame [OF validateScore_rounded_sum_keeps] validateScore_rounded_sum_keeps
  by simp

text \<open>
  C10. A score whose four sub-scores are numbers in [0,25] and whose declared total is a
  number outside [0,100] fails lenient validation with the range error, and the
  evaluation pipeline raises; the total is not corrected, although the sum of the
  sub-scores lies in [0,100].
\<close>

theorem lenient_total_out_of_range_fails:
  assumes "specificity s = Num a" "PromptScore.creativity s = Num b" "coherence s = Num c"
    "complexity s = Num d" "PromptScore.total s = Num t"
    "0 \<le> a" "a \<le> 25" "0 \<le> b" "b \<le> 25" "0 \<le> c" "c \<le> 25" "0 \<le> d" "d \<le> 25"
    "t < 0 \<or> 100 < t"
  shows "validateScore s = Inl TotalOutOfRange \<and>
     evaluatePrompt s = Inl (EvaluationParseError TotalOutOfRange) \<and>
     0 \<le> a + b + c + d \<and> a + b + c + d \<le> 100"
  using assms by (auto simp add: evaluatePrompt_def validateScore_def Let_def)

theorem lenient_total_out_of_range_fails_witness:
  "validateScore \<lparr>specificity = Num 20, creativity = Num 18, coherence = Num 22,
      complexity = Num 15, total = Num 175, reasoning = Str ''ok''\<rparr> = Inl TotalOutOfRange \<and>
   evaluatePrompt \<lparr>specificity = Num 20, creativity = Num 18, coherence = Num 22,
      complexity = Num 15, total = Num 175, reasoning = Str ''ok''\<rparr>
     = Inl (EvaluationParseError TotalOutOfRange)"
  using lenient_total_out_of_range_fails [of "\<lparr>specificity = Num 20, creativity = Num 18,
      coherence = Num 22, complexity = Num 15, total = Num 175, reasoning = Str ''ok''\<rparr>"
      20 18 22 15 175]
  by simp

section \<open>Strict against lenient\<close>


text \<open>
  The score 0.1, 4.9, 0, 0 with declared total 4, in doubles: the sum rounds to 5, which
  is exactly 1 away from 4, and strict validation accepts it.
\<close>

lemma validatePersonaScore_rounded_sum_accepts:
  "validatePersonaScore (Some \<lparr>logical_coherence = Num (3602879701896397 / 36028797018963968),
      creativity = Num (2758454771764429 / 562949953421312), persuasiveness = Num 0,
      topic_relevance = Num 0, total = Num 4\<rparr>) = Inr ()"
proof -
  have s1: "fadd (3602879701896397 / 36028797018963968) (2758454771764429 / 562949953421312) = 5"
    unfolding fadd_def by (subst to_double_at [where n = 50]) (simp_all add: round_even_def)
  have s2: "fadd 5 0 = 5" by (simp add: fadd_def)
  have s3: "fsub 5 4 = 1" by (simp add: fsub_def)
  show ?thesis by (simp add: s1 s2 s3)
qed



section \<open>The evaluation pipeline, end to end\<close>

text \<open>
  C6. When the parsed text is the object with sub-scores 20, 18, 22 and 15, total 74 and
  the reasoning "Well-structured and specific.", \<open>evaluatePrompt\<close> succeeds with quality
  level high and the tier probabilities common 25, rare 40, epic 28, legendary 7.
\<close>

theorem evaluatePrompt_end_to_end:
  "evaluatePrompt \<lparr>specificity = Num 20, creativity = Num 18, coherence = Num 22,
      complexity = Num 15, total = Num 74, reasoning = Str ''Well-structured and specific.''\<rparr>
   = Inr \<lparr>score = \<lparr>specificity = Num 20, creativity = Num 18, coherence = Num 22,
        complexity = Num 15, total = Num 74,
        reasoning = Str ''Well-structured and specific.''\<rparr>,
      tierProbabilities = Some [(Common, 25), (Rare, 40), (Epic, 28), (Legendary, 7)],
      qualityLevel = High\<rparr>"
  by (simp add: evaluatePrompt_def validateScore_def getQualityLevel_def TIER_PROBABILITIES_def
      fadd_def fsub_def)

theorem evaluatePrompt_end_to_end_witness:
  "\<exists>response. evaluatePrompt \<lparr>specificity = Num 20, creativity = Num 18, coherence = Num 22,
      complexity = Num 15, total = Num 74, reasoning = Str ''Well-structured and specific.''\<rparr>
     = Inr response \<and> qualityLevel response = High \<and>
     tierProbabilities response = Some [(Common, 25), (Rare, 40), (Epic, 28), (Legendary, 7)]"
  using evaluatePrompt_end_to_end by simp

section \<open>Validation of a judge result\<close>

lemma validatePersonaScore_Inr:
  assumes "validatePersonaScore x = Inr u"
  shows "\<exists>p t. x = Some p \<and> PersonaScore.total p = Num t"
proof (cases x)
  case None
  with assms show ?thesis by simp
next
  case (Some p)
  with assms have "isNumber (PersonaScore.total p)"
    by (simp split: if_splits)
  then obtain t where "PersonaScore.total p = Num t"
    by (cases "PersonaScore.total p") simp_all
  with Some show ?thesis by blast
qed

lemma validateJudgeResult_cases:
  assumes "winner r = Str ''persona1'' \<or> winner r = Str ''persona2''"
    and "scores r = Some s"
    and "validatePersonaScore (Scores.persona1 s) = Inr ()"
    and "validatePersonaScore (Scores.persona2 s) = Inr ()"
  shows "validateJudgeResult r =
    (if winner r = Str ''persona1'' \<and>
        personaTotal (Scores.persona1 s) < personaTotal (Scores.persona2 s)
     then Inl (WinnerMismatch ''persona1'')
     else if winner r = Str ''persona2'' \<and>
        personaTotal (Scores.persona2 s) < personaTotal (Scores.persona1 s)
     then Inl (WinnerMismatch ''persona2'')
     else if falsy (reasoning r) \<or> length_less (reasoning r) 20
     then Inl ReasoningTooShort
     else if highlightMissing (highlights r) persona1_best \<or>
             highlightMissing (highlights r) persona2_best
     then Inl MissingHighlights
     else if suggestionMissing (improvement_suggestions r) ImprovementSuggestions.persona1 \<or>
             suggestionMissing (improvement_suggestions r) ImprovementSuggestions.persona2
     then Inl MissingSuggestions
     else Inr ())"
  using assms by (auto simp add: validateJudgeResult_def Let_def)

lemma validateJudgeResult_Inr:
  assumes "validateJudgeResult r = Inr u"
  shows "\<exists>s. scores r = Some s \<and>
     (winner r = Str ''persona1'' \<or> winner r = Str ''persona2'') \<and>
     validatePersonaScore (Scores.persona1 s) = Inr () \<and>
     validatePersonaScore (Scores.persona2 s) = Inr ()"
  using assms
  by (auto simp add: validateJudgeResult_def split: if_splits option.splits sum.splits)

lemma validateJudgeResult_Inr_narrative:
  assumes "validateJudgeResult r = Inr u"
  shows "\<not> falsy (reasoning r) \<and> \<not> length_less (reasoning r) 20 \<and>
     \<not> highlightMissing (highlights r) persona1_best \<and>
     \<not> highlightMissing (highlights r) persona2_best \<and>
     \<not> suggestionMissing (improvement_suggestions r) ImprovementSuggestions.persona1 \<and>
     \<not> suggestionMissing (improvement_suggestions r) ImprovementSuggestions.persona2"
proof -
  from validateJudgeResult_Inr [OF assms] obtain s where s: "scores r = Some s"
    "winner r = Str ''persona1'' \<or> winner r = Str ''persona2''"
    "validatePersonaScore (Scores.persona1 s) = Inr ()"
    "validatePersonaScore (Scores.persona2 s) = Inr ()"
    by blast
  from validateJudgeResult_cases [OF s(2) s(1) s(3) s(4)] assms show ?thesis
    by (simp split: if_splits)
qed

text \<open>
  C5, as amended. \<open>validateJudgeResult\<close> accepts a result only if the total of the
  declared winner is at least the total of the other participant. When both score
  objects pass strict validation, which runs before the totals are compared, a result
  that names persona1 while persona1 has the lower total is rejected with the winner
  mismatch, and symmetrically for persona2. When the winner's total is at least the
  other's and the narrative fields are there, the result is accepted whatever the
  persuasiveness sub-scores are: no tie-break is checked. A result with one of the two
  winner tokens whose first score object fails strict validation is rejected with the
  error of that validation, and one whose first score object passes and whose second
  fails is rejected with the error of the second.
\<close>

theorem validateJudgeResult_winner_total:
  "(validateJudgeResult r = Inr () \<longrightarrow>
      (\<exists>s p1 p2 t1 t2. scores r = Some s \<and>
         Scores.persona1 s = Some p1 \<and> Scores.persona2 s = Some p2 \<and>
         PersonaScore.total p1 = Num t1 \<and> PersonaScore.total p2 = Num t2 \<and>
         (winner r = Str ''persona1'' \<and> t2 \<le> t1 \<or> winner r = Str ''persona2'' \<and> t1 \<le> t2))) \<and>
   (\<forall>s p1 p2 t1 t2.
      scores r = Some s \<and> Scores.persona1 s = Some p1 \<and> Scores.persona2 s = Some p2 \<and>
      PersonaScore.total p1 = Num t1 \<and> PersonaScore.total p2 = Num t2 \<and>
      validatePersonaScore (Some p1) = Inr () \<and> validatePersonaScore (Some p2) = Inr () \<longrightarrow>
      (winner r = Str ''persona1'' \<and> t1 < t2 \<longrightarrow>
         validateJudgeResult r = Inl (WinnerMismatch ''persona1'')) \<and>
      (winner r = Str ''persona2'' \<and> t2 < t1 \<longrightarrow>
         validateJudgeResult r = Inl (WinnerMismatch ''persona2'')) \<and>
      ((winner r = Str ''persona1'' \<and> t2 \<le> t1 \<or> winner r = Str ''persona2'' \<and> t1 \<le> t2) \<and>
       \<not> falsy (reasoning r) \<and> \<not> length_less (reasoning r) 20 \<and>
       \<not> highlightMissing (highlights r) persona1_best \<and>
       \<not> highlightMissing (highlights r) persona2_best \<and>
       \<not> suggestionMissing (improvement_suggestions r) ImprovementSuggestions.persona1 \<and>
       \<not> suggestionMissing (improvement_suggestions r) ImprovementSuggestions.persona2 \<longrightarrow>
         validateJudgeResult r = Inr ())) \<and>
   (\<forall>s e.
      (winner r = Str ''persona1'' \<or> winner r = Str ''persona2'') \<and> scores r = Some s \<and>
      validatePersonaScore (Scores.persona1 s) = Inl e \<longrightarrow>
        validateJudgeResult r = Inl e) \<and>
   (\<forall>s e.
      (winner r = Str ''persona1'' \<or> winner r = Str ''persona2'') \<and> scores r = Some s \<and>
      validatePersonaScore (Scores.persona1 s) = Inr () \<and>
      validatePersonaScore (Scores.persona2 s) = Inl e \<longrightarrow>
        validateJudgeResult r = Inl e)"
proof (intro conjI allI impI)
  assume ok: "validateJudgeResult r = Inr ()"
  from validateJudgeResult_Inr [OF ok] obtain s where s: "scores r = Some s"
    "winner r = Str ''persona1'' \<or> winner r = Str ''persona2''"
    "validatePersonaScore (Scores.persona1 s) = Inr ()"
    "validatePersonaScore (Scores.persona2 s) = Inr ()"
    by blast
  from validatePersonaScore_Inr [OF s(3)] obtain p1 t1
    where p1: "Scores.persona1 s = Some p1" "PersonaScore.total p1 = Num t1" by blast
  from validatePersonaScore_Inr [OF s(4)] obtain p2 t2
    where p2: "Scores.persona2 s = Some p2" "PersonaScore.total p2 = Num t2" by blast
  from validateJudgeResult_cases [OF s(2) s(1) s(3) s(4)] ok p1 p2 s(2)
  have "winner r = Str ''persona1'' \<and> t2 \<le> t1 \<or> winner r = Str ''persona2'' \<and> t1 \<le> t2"
    by (auto split: if_splits)
  with s(1) p1 p2
  show "\<exists>s p1 p2 t1 t2. scores r = Some s \<and>
         Scores.persona1 s = Some p1 \<and> Scores.persona2 s = Some p2 \<and>
         PersonaScore.total p1 = Num t1 \<and> PersonaScore.total p2 = Num t2 \<and>
         (winner r = Str ''persona1'' \<and> t2 \<le> t1 \<or> winner r = Str ''persona2'' \<and> t1 \<le> t2)"
    by blast
next
  fix s p1 p2 t1 t2
  assume h: "scores r = Some s \<and> Scores.persona1 s = Some p1 \<and> Scores.persona2 s = Some p2 \<and>
      PersonaScore.total p1 = Num t1 \<and> PersonaScore.total p2 = Num t2 \<and>
      validatePersonaScore (Some p1) = Inr () \<and> validatePersonaScore (Some p2) = Inr ()"
    and w: "winner r = Str ''persona1'' \<and> t1 < t2"
  then show "validateJudgeResult r = Inl (WinnerMismatch ''persona1'')"
    using validateJudgeResult_cases [of r s] by (simp del: validatePersonaScore.simps)
next
  fix s p1 p2 t1 t2
  assume h: "scores r = Some s \<and> Scores.persona1 s = Some p1 \<and> Scores.persona2 s = Some p2 \<and>
      PersonaScore.total p1 = Num t1 \<and> PersonaScore.total p2 = Num t2 \<and>
      validatePersonaScore (Some p1) = Inr () \<and> validatePersonaScore (Some p2) = Inr ()"
    and w: "winner r = Str ''persona2'' \<and> t2 < t1"
  then show "validateJudgeResult r = Inl (WinnerMismatch ''persona2'')"
    using validateJudgeResult_cases [of r s] by (simp del: validatePersonaScore.simps)
next
  fix s p1 p2 t1 t2
  assume h: "scores r = Some s \<and> Scores.persona1 s = Some p1 \<and> Scores.persona2 s = Some p2 \<and>
      PersonaScore.total p1 = Num t1 \<and> PersonaScore.total p2 = Num t2 \<and>
      validatePersonaScore (Some p1) = Inr () \<and> validatePersonaScore (Some p2) = Inr ()"
    and w: "(winner r = Str ''persona1'' \<and> t2 \<le> t1 \<or> winner r = Str ''persona2'' \<and> t1 \<le> t2) \<and>
       \<not> falsy (reasoning r) \<and> \<not> length_less (reasoning r) 20 \<and>
       \<not> highlightMissing (highlights r) persona1_best \<and>
       \<not> highlightMissing (highlights r) persona2_best \<and>
       \<not> suggestionMissing (improvement_suggestions r) ImprovementSuggestions.persona1 \<and>
       \<not> suggestionMissing (improvement_suggestions r) ImprovementSuggestions.persona2"
  then show "validateJudgeResult r = Inr ()"
    using validateJudgeResult_cases [of r s] by (auto simp del: validatePersonaScore.simps)
next
  fix s e
  assume "(winner r = Str ''persona1'' \<or> winner r = Str ''persona2'') \<and> scores r = Some s \<and>
      validatePersonaScore (Scores.persona1 s) = Inl e"
  then show "validateJudgeResult r = Inl e"
    by (auto simp add: validateJudgeResult_def)
next
  fix s e
  assume "(winner r = Str ''persona1'' \<or> winner r = Str ''persona2'') \<and> scores r = Some s \<and>
      validatePersonaScore (Scores.persona1 s) = Inr () \<and>
      validatePersonaScore (Scores.persona2 s) = Inl e"
  then show "validateJudgeResult r = Inl e"
    by (auto simp add: validateJudgeResult_def)
qed

text \<open>
  A result that is accepted although the totals are 72 and 70 and the declared winner
  has the lower persuasiveness (10 against 20); with the other winner it is rejected
  with the winner mismatch; and with a creativity of 30 in the second score object it
  is rejected with the range error of that field.
\<close>

theorem validateJudgeResult_winner_total_witness:
  "validateJudgeResult
     \<lparr>winner = Str ''persona1'',
      scores = Some \<lparr>Scores.persona1 = Some \<lparr>logical_coherence = Num 25, creativity = Num 20,
                        persuasiveness = Num 10, topic_relevance = Num 17, total = Num 72\<rparr>,
                     Scores.persona2 = Some \<lparr>logical_coherence = Num 20, creativity = Num 15,
                        persuasiveness = Num 20, topic_relevance = Num 15, total = Num 70\<rparr>\<rparr>,
      reasoning = Str ''The first argument was tighter.'',
      highlights = Some \<lparr>persona1_best = Str ''clear structure'',
                         persona2_best = Str ''vivid appeal''\<rparr>,
      improvement_suggestions = Some \<lparr>persona1 = Str ''add emotion'',
                                      persona2 = Str ''add evidence''\<rparr>\<rparr>
   = Inr () \<and>
   validateJudgeResult
     \<lparr>winner = Str ''persona2'',
      scores = Some \<lparr>Scores.persona1 = Some \<lparr>logical_coherence = Num 25, creativity = Num 20,
                        persuasiveness = Num 10, topic_relevance = Num 17, total = Num 72\<rparr>,
                     Scores.persona2 = Some \<lparr>logical_coherence = Num 20, creativity = Num 15,
                        persuasiveness = Num 20, topic_relevance = Num 15, total = Num 70\<rparr>\<rparr>,
      reasoning = Str ''The first argument was tighter.'',
      highlights = Some \<lparr>persona1_best = Str ''clear structure'',
                         persona2_best = Str ''vivid appeal''\<rparr>,
      improvement_suggestions = Some \<lparr>persona1 = Str ''add emotion'',
                                      persona2 = Str ''add evidence''\<rparr>\<rparr>
   = Inl (WinnerMismatch ''persona2'') \<and>
   validateJudgeResult
     \<lparr>winner = Str ''persona1'',
      scores = Some \<lparr>Scores.persona1 = Some \<lparr>logical_coherence = Num 25, creativity = Num 20,
                        persuasiveness = Num 10, topic_relevance = Num 17, total = Num 72\<rparr>,
                     Scores.persona2 = Some \<lparr>logical_coherence = Num 20, creativity = Num 30,
                        persuasiveness = Num 20, topic_relevance = Num 15, total = Num 85\<rparr>\<rparr>,
      reasoning = Str ''The first argument was tighter.'',
      highlights = Some \<lparr>persona1_best = Str ''clear structure'',
                         persona2_best = Str ''vivid appeal''\<rparr>,
      improvement_suggestions = Some \<lparr>persona1 = Str ''add emotion'',
                                      persona2 = Str ''add evidence''\<rparr>\<rparr>
   = Inl (FieldOutOfRange ''creativity'')"
proof -
  let ?p1 = "\<lparr>logical_coherence = Num 25, creativity = Num 20,
      persuasiveness = Num 10, topic_relevance = Num 17, total = Num 72\<rparr>"
  let ?p2 = "\<lparr>logical_coherence = Num 20, creativity = Num 15,
      persuasiveness = Num 20, topic_relevance = Num 15, total = Num 70\<rparr>"
  let ?p3 = "\<lparr>logical_coherence = Num 20, creativity = Num 30,
      persuasiveness = Num 20, topic_relevance = Num 15, total = Num 85\<rparr>"
  let ?r = "\<lambda>w p. \<lparr>winner = Str w,
      scores = Some \<lparr>Scores.persona1 = Some ?p1, Scores.persona2 = Some p\<rparr>,
      reasoning = Str ''The first argument was tighter.'',
      highlights = Some \<lparr>persona1_best = Str ''clear structure'',
                         persona2_best = Str ''vivid appeal''\<rparr>,
      improvement_suggestions = Some \<lparr>persona1 = Str ''add emotion'',
                                      persona2 = Str ''add evidence''\<rparr>\<rparr>"
  have valid: "validatePersonaScore (Some ?p1) = Inr ()" "validatePersonaScore (Some ?p2) = Inr ()"
    by (simp_all add: fadd_def fsub_def)
  have invalid: "validatePersonaScore (Some ?p3) = Inl (FieldOutOfRange ''creativity'')"
    by simp
  from validateJudgeResult_winner_total [of "?r ''persona1'' ?p2"] valid
  have "validateJudgeResult (?r ''persona1'' ?p2) = Inr ()"
    by (simp del: validatePersonaScore.simps)
  moreover from validateJudgeResult_winner_total [of "?r ''persona2'' ?p2"] valid
  have "validateJudgeResult (?r ''persona2'' ?p2) = Inl (WinnerMismatch ''persona2'')"
    by (simp del: validatePersonaScore.simps)
  moreover from validateJudgeResult_winner_total [of "?r ''persona1'' ?p3"] valid(1) invalid
  have "validateJudgeResult (?r ''persona1'' ?p3) = Inl (FieldOutOfRange ''creativity'')"
    by (simp del: validatePersonaScore.simps)
  ultimately show ?thesis by simp
qed

text \<open>
  A result that names persona1 with total 72 against 90, where the sub-scores of persona2
  add up to 70: it is rejected by the strict validation of the second score object,
  with the total mismatch, before the winner is looked at.
\<close>

theorem validateJudgeResult_earlier_error_counterexample:
  "winner
     \<lparr>winner = Str ''persona1'',
      scores = Some \<lparr>Scores.persona1 = Some \<lparr>logical_coherence = Num 25, creativity = Num 20,
                        persuasiveness = Num 10, topic_relevance = Num 17, total = Num 72\<rparr>,
                     Scores.persona2 = Some \<lparr>logical_coherence = Num 20, creativity = Num 15,
                        persuasiveness = Num 20, topic_relevance = Num 15, total = Num 90\<rparr>\<rparr>,
      reasoning = Str ''The first argument was tighter.'',
      highlights = Some \<lparr>persona1_best = Str ''clear structure'',
                         persona2_best = Str ''vivid appeal''\<rparr>,
      improvement_suggestions = Some \<lparr>persona1 = Str ''add emotion'',
                                      persona2 = Str ''add evidence''\<rparr>\<rparr>
   = Str ''persona1'' \<and>
   (72 :: real) < 90 \<and>
   validateJudgeResult
     \<lparr>winner = Str ''persona1'',
      scores = Some \<lparr>Scores.persona1 = Some \<lparr>logical_coherence = Num 25, creativity = Num 20,
                        persuasiveness = Num 10, topic_relevance = Num 17, total = Num 72\<rparr>,
                     Scores.persona2 = Some \<lparr>logical_coherence = Num 20, creativity = Num 15,
                        persuasiveness = Num 20, topic_relevance = Num 15, total = Num 90\<rparr>\<rparr>,
      reasoning = Str ''The first argument was tighter.'',
      highlights = Some \<lparr>persona1_best = Str ''clear structure'',
                         persona2_best = Str ''vivid appeal''\<rparr>,
      improvement_suggestions = Some \<lparr>persona1 = Str ''add emotion'',
                                      persona2 = Str ''add evidence''\<rparr>\<rparr>
   = Inl TotalMismatch \<and>
   TotalMismatch \<noteq> WinnerMismatch ''persona1''"
  by (simp add: validateJudgeResult_def fadd_def fsub_def)

text \<open>
  C8. Validation of a judge result fails whenever the reasoning is missing or is a text of
  fewer than 20 characters, or one of the two highlights or of the two improvement
  suggestions is missing or empty; the judge pipeline then raises with that failure as
  its cause. A result without the second highlight is one such case.
\<close>

theorem validateJudgeResult_narrative_required:
  assumes "reasoning r \<in> {Undefined, Null} \<or>
     (\<exists>txt. reasoning r = Str txt \<and> length txt < 20) \<or>
     highlights r = None \<or>
     (\<exists>h. highlights r = Some h \<and>
        (persona1_best h \<in> {Undefined, Null, Str ''''} \<or>
         persona2_best h \<in> {Undefined, Null, Str ''''})) \<or>
     improvement_suggestions r = None \<or>
     (\<exists>g. improvement_suggestions r = Some g \<and>
        (ImprovementSuggestions.persona1 g \<in> {Undefined, Null, Str ''''} \<or>
         ImprovementSuggestions.persona2 g \<in> {Undefined, Null, Str ''''}))"
  shows "\<exists>e. validateJudgeResult r = Inl e \<and> judgeBattle r = Inl (JudgeParseError e)"
proof (cases "validateJudgeResult r")
  case (Inl e)
  then show ?thesis by (simp add: judgeBattle_def)
next
  case (Inr u)
  from validateJudgeResult_Inr_narrative [OF Inr] assms have False
    by (cases "reasoning r") auto
  then show ?thesis ..
qed

theorem validateJudgeResult_narrative_required_witness:
  "validateJudgeResult
     \<lparr>winner = Str ''persona1'',
      scores = Some \<lparr>Scores.persona1 = Some \<lparr>logical_coherence = Num 25, creativity = Num 20,
                        persuasiveness = Num 10, topic_relevance = Num 17, total = Num 72\<rparr>,
                     Scores.persona2 = Some \<lparr>logical_coherence = Num 20, creativity = Num 15,
                        persuasiveness = Num 20, topic_relevance = Num 15, total = Num 70\<rparr>\<rparr>,
      reasoning = Str ''The first argument was tighter.'',
      highlights = Some \<lparr>persona1_best = Str ''clear structure'', persona2_best = Undefined\<rparr>,
      improvement_suggestions = Some \<lparr>persona1 = Str ''add emotion'',
                                      persona2 = Str ''add evidence''\<rparr>\<rparr>
   = Inl MissingHighlights \<and>
   judgeBattle
     \<lparr>winner = Str ''persona1'',
      scores = Some \<lparr>Scores.persona1 = Some \<lparr>logical_coherence = Num 25, creativity = Num 20,
                        persuasiveness = Num 10, topic_relevance = Num 17, total = Num 72\<rparr>,
                     Scores.persona2 = Some \<lparr>logical_coherence = Num 20, creativity = Num 15,
                        persuasiveness = Num 20, topic_relevance = Num 15, total = Num 70\<rparr>\<rparr>,
      reasoning = Str ''The first argument was tighter.'',
      highlights = Some \<lparr>persona1_best = Str ''clear structure'', persona2_best = Undefined\<rparr>,
      improvement_suggestions = Some \<lparr>persona1 = Str ''add emotion'',
                                      persona2 = Str ''add evidence''\<rparr>\<rparr>
   = Inl (JudgeParseError MissingHighlights)"
proof -
  let ?r = "\<lparr>winner = Str ''persona1'',
      scores = Some \<lparr>Scores.persona1 = Some \<lparr>logical_coherence = Num 25, creativity = Num 20,
                        persuasiveness = Num 10, topic_relevance = Num 17, total = Num 72\<rparr>,
                     Scores.persona2 = Some \<lparr>logical_coherence = Num 20, creativity = Num 15,
                        persuasiveness = Num 20, topic_relevance = Num 15, total = Num 70\<rparr>\<rparr>,
      reasoning = Str ''The first argument was tighter.'',
      highlights = Some \<lparr>persona1_best = Str ''clear structure'', persona2_best = Undefined\<rparr>,
      improvement_suggestions = Some \<lparr>persona1 = Str ''add emotion'',
                                      persona2 = Str ''add evidence''\<rparr>\<rparr>"
  have missing: "\<exists>h. highlights ?r = Some h \<and>
        (persona1_best h \<in> {Undefined, Null, Str ''''} \<or>
         persona2_best h \<in> {Undefined, Null, Str ''''})"
    by simp
  from missing have "\<exists>e. validateJudgeResult ?r = Inl e \<and> judgeBattle ?r = Inl (JudgeParseError e)"
    by (intro validateJudgeResult_narrative_required) blast
  moreover have "validateJudgeResult ?r = Inl MissingHighlights"
    by (simp add: validateJudgeResult_def fadd_def fsub_def)
  ultimately show ?thesis by auto
qed

end
